theory Spec2Isabelle
  imports Main
begin

section \<open>Strings\<close>

text \<open>
  A JavaScript string is a sequence of UTF-16 code units, modelled as a list of integers; \<open>js\<close> gives the string of a literal written in ASCII.
\<close>

type_synonym jsstring = "int list"

definition js :: "string \<Rightarrow> jsstring" where
  "js s = map of_char s"

text \<open>
  White space is what \<open>trim\<close> removes and \<open>\s\<close> matches: the \<open>WhiteSpace\<close> and
  \<open>LineTerminator\<close> code points of ECMAScript (U+0009 to U+000D, U+0020, U+00A0, U+1680,
  U+2000 to U+200A, U+2028, U+2029, U+202F, U+205F, U+3000, U+FEFF). Digits (\<open>\d\<close>) and
  word characters (\<open>\w\<close>, for \<open>\b\<close>) are the ASCII ones.
\<close>

definition is_space :: "int \<Rightarrow> bool" where
  "is_space c \<longleftrightarrow>
     c \<in> {9, 10, 11, 12, 13, 32, 160, 5760, 8232, 8233, 8239, 8287, 12288, 65279}
     \<or> (8192 \<le> c \<and> c \<le> 8202)"

definition is_digit :: "int \<Rightarrow> bool" where
  "is_digit c \<longleftrightarrow> 48 \<le> c \<and> c \<le> 57"

definition is_upper :: "int \<Rightarrow> bool" where
  "is_upper c \<longleftrightarrow> 65 \<le> c \<and> c \<le> 90"

definition is_lower :: "int \<Rightarrow> bool" where
  "is_lower c \<longleftrightarrow> 97 \<le> c \<and> c \<le> 122"

definition is_word :: "int \<Rightarrow> bool" where
  "is_word c \<longleftrightarrow> is_digit c \<or> is_upper c \<or> is_lower c \<or> c = 95"

text \<open>
  Under the flag \<open>i\<close> (without \<open>u\<close>) a pattern letter of ASCII matches its two ASCII
  forms and nothing else: no code unit above U+007F is canonicalised to an ASCII one.
\<close>

definition ascii_lower :: "int \<Rightarrow> int" where
  "ascii_lower c = (if is_upper c then c + 32 else c)"

text \<open>
  \<open>toLowerCase\<close> and \<open>toUpperCase\<close>. Up to U+00FF the mapping is the engine's: the
  ASCII letters, the Latin-1 letters U+00C0 to U+00DE and U+00E0 to U+00FE (not the
  signs U+00D7 and U+00F7), and in upper case U+00B5 to U+039C, U+00DF to \<open>SS\<close> and
  U+00FF to U+0178. Above U+00FF the code units whose case form is made of ASCII letters
  are mapped (U+212A to \<open>k\<close>; U+0131 to \<open>I\<close>, U+017F to \<open>S\<close> and the ligatures
  U+FB00 to U+FB06 to \<open>FF\<close>, \<open>FI\<close>, \<open>FL\<close>, \<open>FFI\<close>, \<open>FFL\<close>, \<open>ST\<close>, \<open>ST\<close>), so a
  lower-cased string is a key of a table here exactly when it is one in the engine;
  every other code unit is left as it is.
\<close>

definition lower_unit :: "int \<Rightarrow> int" where
  "lower_unit c =
     (if is_upper c \<or> (192 \<le> c \<and> c \<le> 222 \<and> c \<noteq> 215) then c + 32
      else if c = 8490 then 107
      else c)"

definition upper_unit :: "int \<Rightarrow> jsstring" where
  "upper_unit c =
     (if is_lower c \<or> (224 \<le> c \<and> c \<le> 254 \<and> c \<noteq> 247) then [c - 32]
      else if c = 181 then [924]
      else if c = 223 then [83, 83]
      else if c = 255 then [376]
      else if c = 305 then [73]
      else if c = 383 then [83]
      else if c = 64256 then [70, 70]
      else if c = 64257 then [70, 73]
      else if c = 64258 then [70, 76]
      else if c = 64259 then [70, 70, 73]
      else if c = 64260 then [70, 70, 76]
      else if c = 64261 \<or> c = 64262 then [83, 84]
      else [c])"

definition toLowerCase :: "jsstring \<Rightarrow> jsstring" where
  "toLowerCase s = map lower_unit s"

definition toUpperCase :: "jsstring \<Rightarrow> jsstring" where
  "toUpperCase s = concat (map upper_unit s)"

definition trim :: "jsstring \<Rightarrow> jsstring" where
  "trim s = rev (dropWhile is_space (rev (dropWhile is_space s)))"

text \<open>\<open>s.split(sep)\<close> for a one-character separator: never an empty list.\<close>

fun split_on :: "int \<Rightarrow> jsstring \<Rightarrow> jsstring list" where
  "split_on sep [] = [[]]"
| "split_on sep (c # cs) =
     (if c = sep then [] # split_on sep cs
      else (case split_on sep cs of
              w # ws \<Rightarrow> (c # w) # ws
            | [] \<Rightarrow> [[c]]))"

fun join_with :: "int \<Rightarrow> jsstring list \<Rightarrow> jsstring" where
  "join_with sep [] = []"
| "join_with sep [w] = w"
| "join_with sep (w # v # ws) = w @ sep # join_with sep (v # ws)"

text \<open>\<open>s.slice(n)\<close> and \<open>s.slice(0, n)\<close> for \<open>n \<ge> 0\<close>.\<close>

definition slice_from :: "nat \<Rightarrow> jsstring \<Rightarrow> jsstring" where
  "slice_from n s = drop n s"

definition slice_to :: "nat \<Rightarrow> jsstring \<Rightarrow> jsstring" where
  "slice_to n s = take n s"

text \<open>\<open>String(n)\<close> for an integer, and \<open>parseInt(s, 10)\<close> on a string of digits.\<close>

definition digit_char :: "nat \<Rightarrow> int" where
  "digit_char d = 48 + int d"

definition digit_val :: "int \<Rightarrow> nat" where
  "digit_val c = nat (c - 48)"

fun String_nat :: "nat \<Rightarrow> jsstring" where
  "String_nat n = (if n < 10 then [digit_char n] else String_nat (n div 10) @ [digit_char (n mod 10)])"

declare String_nat.simps [simp del]

definition String :: "int \<Rightarrow> jsstring" where
  "String n = (if n < 0 then 45 # String_nat (nat (- n)) else String_nat (nat n))"

definition parseInt :: "jsstring \<Rightarrow> int" where
  "parseInt s = int (foldl (\<lambda>a c. 10 * a + digit_val c) 0 s)"

definition padStart :: "nat \<Rightarrow> int \<Rightarrow> jsstring \<Rightarrow> jsstring" where
  "padStart n c s = replicate (n - length s) c @ s"

section \<open>Static lookup tables (timezone-data.ts)\<close>

text \<open>
  The tables are object literals. Each is written here with its own entries, in source
  order.
\<close>

definition ABBREVIATION_MAP :: "(jsstring \<times> jsstring list) list" where
  "ABBREVIATION_MAP =
   map (map_prod js (map js))
    [(''utc'', [''UTC'']),
     (''gmt'', [''Etc/GMT'']),
     (''est'', [''America/New_York'']),
     (''edt'', [''America/New_York'']),
     (''cst'', [''America/Chicago'', ''Asia/Shanghai'']),
     (''cdt'', [''America/Chicago'']),
     (''mst'', [''America/Denver'']),
     (''mdt'', [''America/Denver'']),
     (''pst'', [''America/Los_Angeles'']),
     (''pdt'', [''America/Los_Angeles'']),
     (''akst'', [''America/Anchorage'']),
     (''akdt'', [''America/Anchorage'']),
     (''hst'', [''Pacific/Honolulu'']),
     (''ast'', [''America/Halifax'', ''Asia/Riyadh'']),
     (''nst'', [''America/St_Johns'']),
     (''ndt'', [''America/St_Johns'']),
     (''cet'', [''Europe/Berlin'']),
     (''cest'', [''Europe/Berlin'']),
     (''eet'', [''Europe/Bucharest'']),
     (''eest'', [''Europe/Bucharest'']),
     (''wet'', [''Europe/Lisbon'']),
     (''west'', [''Europe/Lisbon'']),
     (''gmt_plus_1'', [''Europe/London'']),
     (''bst'', [''Europe/London'', ''Asia/Dhaka'']),
     (''ist'', [''Asia/Kolkata'', ''Asia/Jerusalem'', ''Europe/Dublin'']),
     (''msk'', [''Europe/Moscow'']),
     (''jst'', [''Asia/Tokyo'']),
     (''kst'', [''Asia/Seoul'']),
     (''cst_china'', [''Asia/Shanghai'']),
     (''hkt'', [''Asia/Hong_Kong'']),
     (''sgt'', [''Asia/Singapore'']),
     (''myt'', [''Asia/Kuala_Lumpur'']),
     (''pht'', [''Asia/Manila'']),
     (''wib'', [''Asia/Jakarta'']),
     (''wit'', [''Asia/Jayapura'']),
     (''wita'', [''Asia/Makassar'']),
     (''ict'', [''Asia/Bangkok'']),
     (''mmt'', [''Asia/Yangon'']),
     (''npt'', [''Asia/Kathmandu'']),
     (''pkt'', [''Asia/Karachi'']),
     (''aft'', [''Asia/Kabul'']),
     (''irst'', [''Asia/Tehran'']),
     (''gst'', [''Asia/Dubai'']),
     (''aqtt'', [''Asia/Aqtau'']),
     (''aest'', [''Australia/Sydney'']),
     (''aedt'', [''Australia/Sydney'']),
     (''acst'', [''Australia/Adelaide'']),
     (''acdt'', [''Australia/Adelaide'']),
     (''awst'', [''Australia/Perth'']),
     (''nzst'', [''Pacific/Auckland'']),
     (''nzdt'', [''Pacific/Auckland'']),
     (''fjt'', [''Pacific/Fiji'']),
     (''brt'', [''America/Sao_Paulo'']),
     (''brst'', [''America/Sao_Paulo'']),
     (''art'', [''America/Argentina/Buenos_Aires'']),
     (''clt'', [''America/Santiago'']),
     (''clst'', [''America/Santiago'']),
     (''pet'', [''America/Lima'']),
     (''cot'', [''America/Bogota'']),
     (''vet'', [''America/Caracas'']),
     (''cat'', [''Africa/Harare'']),
     (''eat'', [''Africa/Nairobi'']),
     (''wat'', [''Africa/Lagos'']),
     (''sast'', [''Africa/Johannesburg''])]"

definition CITY_MAP :: "(jsstring \<times> jsstring) list" where
  "CITY_MAP =
   map (map_prod js js)
    [(''new york'', ''America/New_York''),
     (''chicago'', ''America/Chicago''),
     (''denver'', ''America/Denver''),
     (''los angeles'', ''America/Los_Angeles''),
     (''phoenix'', ''America/Phoenix''),
     (''anchorage'', ''America/Anchorage''),
     (''honolulu'', ''Pacific/Honolulu''),
     (''toronto'', ''America/Toronto''),
     (''vancouver'', ''America/Vancouver''),
     (''montreal'', ''America/Toronto''),
     (''halifax'', ''America/Halifax''),
     (''st johns'', ''America/St_Johns''),
     (''mexico city'', ''America/Mexico_City''),
     (''london'', ''Europe/London''),
     (''paris'', ''Europe/Paris''),
     (''berlin'', ''Europe/Berlin''),
     (''amsterdam'', ''Europe/Amsterdam''),
     (''brussels'', ''Europe/Brussels''),
     (''madrid'', ''Europe/Madrid''),
     (''rome'', ''Europe/Rome''),
     (''zurich'', ''Europe/Zurich''),
     (''vienna'', ''Europe/Vienna''),
     (''prague'', ''Europe/Prague''),
     (''warsaw'', ''Europe/Warsaw''),
     (''budapest'', ''Europe/Budapest''),
     (''bucharest'', ''Europe/Bucharest''),
     (''athens'', ''Europe/Athens''),
     (''istanbul'', ''Europe/Istanbul''),
     (''moscow'', ''Europe/Moscow''),
     (''helsinki'', ''Europe/Helsinki''),
     (''stockholm'', ''Europe/Stockholm''),
     (''oslo'', ''Europe/Oslo''),
     (''copenhagen'', ''Europe/Copenhagen''),
     (''dublin'', ''Europe/Dublin''),
     (''lisbon'', ''Europe/Lisbon''),
     (''kyiv'', ''Europe/Kyiv''),
     (''tokyo'', ''Asia/Tokyo''),
     (''osaka'', ''Asia/Tokyo''),
     (''seoul'', ''Asia/Seoul''),
     (''beijing'', ''Asia/Shanghai''),
     (''shanghai'', ''Asia/Shanghai''),
     (''hong kong'', ''Asia/Hong_Kong''),
     (''taipei'', ''Asia/Taipei''),
     (''singapore'', ''Asia/Singapore''),
     (''kuala lumpur'', ''Asia/Kuala_Lumpur''),
     (''bangkok'', ''Asia/Bangkok''),
     (''jakarta'', ''Asia/Jakarta''),
     (''manila'', ''Asia/Manila''),
     (''delhi'', ''Asia/Kolkata''),
     (''mumbai'', ''Asia/Kolkata''),
     (''kolkata'', ''Asia/Kolkata''),
     (''chennai'', ''Asia/Kolkata''),
     (''bangalore'', ''Asia/Kolkata''),
     (''karachi'', ''Asia/Karachi''),
     (''lahore'', ''Asia/Karachi''),
     (''dhaka'', ''Asia/Dhaka''),
     (''kathmandu'', ''Asia/Kathmandu''),
     (''yangon'', ''Asia/Yangon''),
     (''tehran'', ''Asia/Tehran''),
     (''dubai'', ''Asia/Dubai''),
     (''abu dhabi'', ''Asia/Dubai''),
     (''riyadh'', ''Asia/Riyadh''),
     (''doha'', ''Asia/Qatar''),
     (''jerusalem'', ''Asia/Jerusalem''),
     (''tel aviv'', ''Asia/Jerusalem''),
     (''kabul'', ''Asia/Kabul''),
     (''colombo'', ''Asia/Colombo''),
     (''sydney'', ''Australia/Sydney''),
     (''melbourne'', ''Australia/Melbourne''),
     (''brisbane'', ''Australia/Brisbane''),
     (''perth'', ''Australia/Perth''),
     (''adelaide'', ''Australia/Adelaide''),
     (''auckland'', ''Pacific/Auckland''),
     (''wellington'', ''Pacific/Auckland''),
     (''fiji'', ''Pacific/Fiji''),
     (''sao paulo'', ''America/Sao_Paulo''),
     (''rio de janeiro'', ''America/Sao_Paulo''),
     (''buenos aires'', ''America/Argentina/Buenos_Aires''),
     (''santiago'', ''America/Santiago''),
     (''lima'', ''America/Lima''),
     (''bogota'', ''America/Bogota''),
     (''caracas'', ''America/Caracas''),
     (''cairo'', ''Africa/Cairo''),
     (''lagos'', ''Africa/Lagos''),
     (''nairobi'', ''Africa/Nairobi''),
     (''johannesburg'', ''Africa/Johannesburg''),
     (''cape town'', ''Africa/Johannesburg''),
     (''casablanca'', ''Africa/Casablanca''),
     (''accra'', ''Africa/Accra''),
     (''addis ababa'', ''Africa/Addis_Ababa'')]"

definition SHORT_FORM_MAP :: "(jsstring \<times> jsstring) list" where
  "SHORT_FORM_MAP =
   map (map_prod js js)
    [(''ny'', ''America/New_York''),
     (''nyc'', ''America/New_York''),
     (''la'', ''America/Los_Angeles''),
     (''sf'', ''America/Los_Angeles''),
     (''chi'', ''America/Chicago''),
     (''kl'', ''Asia/Kuala_Lumpur''),
     (''hk'', ''Asia/Hong_Kong''),
     (''sg'', ''Asia/Singapore'')]"

definition TIMEZONE_FULL_NAMES :: "(jsstring \<times> jsstring) list" where
  "TIMEZONE_FULL_NAMES =
   map (map_prod js js)
    [(''America/New_York'', ''Eastern Time''),
     (''America/Chicago'', ''Central Time''),
     (''America/Denver'', ''Mountain Time''),
     (''America/Los_Angeles'', ''Pacific Time''),
     (''Asia/Shanghai'', ''China Standard Time''),
     (''Asia/Kolkata'', ''India Standard Time''),
     (''Asia/Jerusalem'', ''Israel Standard Time''),
     (''Europe/Dublin'', ''Irish Standard Time''),
     (''Europe/London'', ''British Summer Time''),
     (''Asia/Dhaka'', ''Bangladesh Standard Time''),
     (''America/Halifax'', ''Atlantic Time''),
     (''Asia/Riyadh'', ''Arabia Standard Time'')]"

section \<open>Property lookup and values\<close>

text \<open>
  A lookup \<open>TABLE[key]\<close> on an object literal answers the table's own entry under that
  key, and otherwise the member of that name that every object inherits from
  \<open>Object.prototype\<close>: \<open>constructor\<close> is the function \<open>Object\<close>, \<open>__proto__\<close> is
  \<open>Object.prototype\<close> itself, the others are its methods. A built-in function is
  written with its name and its \<open>length\<close>; \<open>Object.prototype\<close> has no \<open>length\<close>.
\<close>

datatype jsobject = ObjectPrototype | Builtin string nat

definition Object_prototype :: "(jsstring \<times> jsobject) list" where
  "Object_prototype =
   map (map_prod js id)
    [(''constructor'', Builtin ''Object'' 1),
     (''__defineGetter__'', Builtin ''__defineGetter__'' 2),
     (''__defineSetter__'', Builtin ''__defineSetter__'' 2),
     (''hasOwnProperty'', Builtin ''hasOwnProperty'' 1),
     (''__lookupGetter__'', Builtin ''__lookupGetter__'' 1),
     (''__lookupSetter__'', Builtin ''__lookupSetter__'' 1),
     (''isPrototypeOf'', Builtin ''isPrototypeOf'' 1),
     (''propertyIsEnumerable'', Builtin ''propertyIsEnumerable'' 1),
     (''toString'', Builtin ''toString'' 0),
     (''valueOf'', Builtin ''valueOf'' 0),
     (''__proto__'', ObjectPrototype),
     (''toLocaleString'', Builtin ''toLocaleString'' 0)]"

datatype 'a property = Own 'a | Inherited jsobject | Absent

definition getProp :: "(jsstring \<times> 'a) list \<Rightarrow> jsstring \<Rightarrow> 'a property" where
  "getProp table key =
     (case map_of table key of
        Some v \<Rightarrow> Own v
      | None \<Rightarrow>
          (case map_of Object_prototype key of
             Some m \<Rightarrow> Inherited m
           | None \<Rightarrow> Absent))"

text \<open>
  The values the code holds where its types say \<open>string\<close>: a string, or an inherited
  member that a lookup has answered. An object is truthy, a string is truthy when it is
  not empty.
\<close>

datatype jsval = Str jsstring | Obj jsobject

fun truthy :: "jsval \<Rightarrow> bool" where
  "truthy (Str s) = (s \<noteq> [])"
| "truthy (Obj m) = True"

text \<open>
  The one exception the functions below can raise: calling a method that the value does
  not have (\<open>input.trim\<close> on an object) or spreading a value that is not iterable.
\<close>

datatype jserror = TypeError

section \<open>Zone resolution (timezone-utils.ts)\<close>

text \<open>
  \<open>isValidIana\<close> asks the host (\<open>Intl.DateTimeFormat\<close>) whether it accepts a zone
  identifier and turns the host's exception into \<open>false\<close>. The host's zone database is
  not part of the repository: it is the parameter \<open>valid\<close> of every function that
  reaches \<open>isValidIana\<close>.
\<close>

definition isValidIana :: "(jsstring \<Rightarrow> bool) \<Rightarrow> jsstring \<Rightarrow> bool" where
  "isValidIana valid tz = valid tz"

text \<open>\<open>w.charAt(0).toUpperCase() + w.slice(1).toLowerCase()\<close>\<close>

definition capitalize :: "jsstring \<Rightarrow> jsstring" where
  "capitalize w = toUpperCase (take 1 w) @ toLowerCase (slice_from 1 w)"

definition ianaGuess :: "jsstring \<Rightarrow> jsstring" where
  "ianaGuess trimmed =
     join_with 47
       (map (\<lambda>part. join_with 95 (map capitalize (split_on 95 part)))
            (split_on 47 trimmed))"

text \<open>
  The three table stages of \<open>resolveTimezone\<close>, on the lower-cased phrase: each
  \<open>if (TABLE[lower]) return ...\<close> with the three answers a lookup can give.
\<close>

definition cityStage :: "jsstring \<Rightarrow> jserror + jsval list" where
  "cityStage lower =
     (case getProp CITY_MAP lower of
        Own z \<Rightarrow> if z \<noteq> [] then Inr [Str z] else Inr []
      | Inherited m \<Rightarrow> Inr [Obj m]
      | Absent \<Rightarrow> Inr [])"

definition abbreviationStage :: "jsstring \<Rightarrow> jserror + jsval list" where
  "abbreviationStage lower =
     (case getProp ABBREVIATION_MAP lower of
        Own zones \<Rightarrow> Inr (map Str zones)
      | Inherited m \<Rightarrow> Inl TypeError
      | Absent \<Rightarrow> cityStage lower)"

definition shortFormStage :: "jsstring \<Rightarrow> jserror + jsval list" where
  "shortFormStage lower =
     (case getProp SHORT_FORM_MAP lower of
        Own z \<Rightarrow> if z \<noteq> [] then Inr [Str z] else abbreviationStage lower
      | Inherited m \<Rightarrow> Inr [Obj m]
      | Absent \<Rightarrow> abbreviationStage lower)"

definition resolveTimezone :: "(jsstring \<Rightarrow> bool) \<Rightarrow> jsval \<Rightarrow> jserror + jsval list" where
  "resolveTimezone valid input =
     (case input of
        Obj m \<Rightarrow> Inl TypeError
      | Str s \<Rightarrow>
          let trimmed = trim s in
          if trimmed = [] then Inr []
          else if isValidIana valid trimmed then Inr [Str trimmed]
          else if ianaGuess trimmed \<noteq> trimmed \<and> isValidIana valid (ianaGuess trimmed)
            then Inr [Str (ianaGuess trimmed)]
          else shortFormStage (toLowerCase trimmed))"

text \<open>
  \<open>!matches || matches.length <= 1\<close>: an array and a function have a \<open>length\<close>;
  \<open>Object.prototype\<close> has none, and \<open>undefined <= 1\<close> is false.
\<close>

fun unambiguous :: "jsstring list property \<Rightarrow> bool" where
  "unambiguous Absent = True"
| "unambiguous (Own zones) = (length zones \<le> 1)"
| "unambiguous (Inherited (Builtin name n)) = (n \<le> 1)"
| "unambiguous (Inherited ObjectPrototype) = False"

text \<open>
  \<open>TIMEZONE_FULL_NAMES[ianaId] || ianaId\<close>; a key that is not a string is turned into
  one that no object has as a member.
\<close>

definition fullNameOr :: "jsval \<Rightarrow> jsval" where
  "fullNameOr tz =
     (case tz of
        Obj m \<Rightarrow> tz
      | Str s \<Rightarrow>
          (case getProp TIMEZONE_FULL_NAMES s of
             Own n \<Rightarrow> if n \<noteq> [] then Str n else tz
           | Inherited m \<Rightarrow> Obj m
           | Absent \<Rightarrow> tz))"

definition getDisambiguationLabel :: "jsval \<Rightarrow> jsstring \<Rightarrow> jsval option" where
  "getDisambiguationLabel tz sourceLabel =
     (let lower = toLowerCase sourceLabel;
          matches = getProp ABBREVIATION_MAP lower
      in if unambiguous matches then None else Some (fullNameOr tz))"

section \<open>Result types (timezone-utils.ts)\<close>

text \<open>
  \<open>ConvertedTime\<close>, the entries of the target list and the calendar fields read by
  \<open>getDateParts\<close>. \<open>ConvertedTime\<close> shares field names with the other records; its
  fields are written with the record's name in front, and its field \<open>abbreviation\<close>
  is written \<open>abbreviation'\<close>.
\<close>

record ConvertedTime =
  ianaId :: jsstring
  abbreviation' :: jsstring
  formattedTime :: jsstring
  utcOffset :: jsstring
  dayOffset :: int
  isLocal :: bool
  label :: "jsstring option"
  hours :: int
  minutes :: int

record DateParts =
  year :: int
  month :: int
  day :: int
  hour :: int
  minute :: int

record Target =
  ianaId :: jsval
  label :: "jsstring option"

section \<open>Query parsing (timezone-utils.ts)\<close>

record ParsedQuery =
  timeStr :: jsstring
  hours :: int
  minutes :: int
  sourceTimezone :: jsval
  sourceLabel :: jsstring
  targetTimezone :: "jsval option"
  error :: "jsstring option"

text \<open>
  The result of matching \<open>TIME_RE\<close>: the whole match (\<open>timeMatch[0]\<close>) and the three
  capture groups, the optional ones absent when they did not take part.
\<close>

record TimeMatch =
  whole :: jsstring
  hourGroup :: jsstring
  minuteGroup :: "jsstring option"
  meridiemGroup :: "jsstring option"

text \<open>
  \<open>/^(\d{1,2})(?:[:.](\d{2}))?\s*(am|pm)?/i\<close> against a string. Every quantifier is
  greedy and everything after the first group can match the empty string, so the first
  alternative the matcher tries at each point is the one that stands: two digits when two
  are there, the separator with its two digits when they are there, all the white space,
  and a meridiem when the next two characters spell one in either case.
\<close>

definition match_hour :: "jsstring \<Rightarrow> (jsstring \<times> jsstring) option" where
  "match_hour s =
     (case s of
        [] \<Rightarrow> None
      | c1 # r1 \<Rightarrow>
          if \<not> is_digit c1 then None
          else (case r1 of
                  [] \<Rightarrow> Some ([c1], r1)
                | c2 # r2 \<Rightarrow> if is_digit c2 then Some ([c1, c2], r2) else Some ([c1], r1)))"

definition match_minute :: "jsstring \<Rightarrow> (jsstring \<times> jsstring) option" where
  "match_minute s =
     (case s of
        sep # m1 # m2 # r \<Rightarrow>
          if (sep = 58 \<or> sep = 46) \<and> is_digit m1 \<and> is_digit m2
          then Some ([sep, m1, m2], r) else None
      | _ \<Rightarrow> None)"

definition match_meridiem :: "jsstring \<Rightarrow> jsstring option" where
  "match_meridiem s =
     (case s of
        a # b # r \<Rightarrow>
          if (ascii_lower a = 97 \<or> ascii_lower a = 112) \<and> ascii_lower b = 109
          then Some [a, b] else None
      | _ \<Rightarrow> None)"

definition TIME_RE :: "jsstring \<Rightarrow> TimeMatch option" where
  "TIME_RE s =
     (case match_hour s of
        None \<Rightarrow> None
      | Some (h, r1) \<Rightarrow>
          let mm = match_minute r1;
              m = (case mm of None \<Rightarrow> [] | Some (t, _) \<Rightarrow> t);
              r2 = (case mm of None \<Rightarrow> r1 | Some (_, r) \<Rightarrow> r);
              ws = takeWhile is_space r2;
              r3 = dropWhile is_space r2;
              ap = match_meridiem r3
          in Some \<lparr> whole = h @ m @ ws @ (case ap of None \<Rightarrow> [] | Some t \<Rightarrow> t),
                    hourGroup = h,
                    minuteGroup = (case mm of None \<Rightarrow> None | Some (t, _) \<Rightarrow> Some (drop 1 t)),
                    meridiemGroup = ap \<rparr>)"

text \<open>
  \<open>/\bto\b/i\<close>: the index of the leftmost \<open>to\<close> (in either case) that has no word
  character directly before it and none directly after it. \<open>prev\<close> tells whether the
  character before the current position is a word character, \<open>i\<close> is the position.
\<close>

fun to_search :: "bool \<Rightarrow> nat \<Rightarrow> jsstring \<Rightarrow> nat option" where
  "to_search prev i (a # b # r) =
     (if \<not> prev \<and> ascii_lower a = 116 \<and> ascii_lower b = 111
         \<and> (case r of [] \<Rightarrow> True | c # _ \<Rightarrow> \<not> is_word c)
      then Some i
      else to_search (is_word a) (Suc i) (b # r))"
| "to_search prev i r = None"

definition TO_RE :: "jsstring \<Rightarrow> nat option" where
  "TO_RE s = to_search False 0 s"

definition failure :: "jsstring \<Rightarrow> int \<Rightarrow> int \<Rightarrow> jsval \<Rightarrow> jsstring \<Rightarrow> jsstring \<Rightarrow> ParsedQuery" where
  "failure ts h m tz lbl msg =
     \<lparr> timeStr = ts, hours = h, minutes = m, sourceTimezone = tz, sourceLabel = lbl,
       targetTimezone = None, error = Some msg \<rparr>"

text \<open>
  Steps 2 to 4 of \<open>parseQuery\<close>, after the time has been read and validated. An
  exception of \<open>resolveTimezone\<close> leaves \<open>parseQuery\<close> as it is.
\<close>

definition parseZones ::
  "(jsstring \<Rightarrow> bool) \<Rightarrow> jsstring \<Rightarrow> int \<Rightarrow> int \<Rightarrow> jsstring \<Rightarrow> jserror + ParsedQuery" where
  \<open>parseZones valid ts h m rest =
     (let toMatch = TO_RE rest;
          sourcePart = (case toMatch of None \<Rightarrow> rest | Some i \<Rightarrow> trim (slice_to i rest));
          targetPart = (case toMatch of None \<Rightarrow> None | Some i \<Rightarrow> Some (trim (slice_from (i + 2) rest)))
      in if sourcePart = [] then
           Inr (failure ts h m (Str []) [] (js ''Missing source timezone. Try: 7:22 CET''))
         else
           (case resolveTimezone valid (Str sourcePart) of
              Inl e \<Rightarrow> Inl e
            | Inr [] \<Rightarrow>
                Inr (failure ts h m (Str []) sourcePart
                  (js ''Unknown timezone: "'' @ sourcePart @ js ''". Try CET, Berlin, or Europe/Berlin''))
            | Inr (src # _) \<Rightarrow>
                if targetPart \<noteq> None \<and> targetPart \<noteq> Some [] then
                  (case resolveTimezone valid (Str (the targetPart)) of
                     Inl e \<Rightarrow> Inl e
                   | Inr [] \<Rightarrow>
                       Inr (failure ts h m src sourcePart
                         (js ''Unknown target timezone: "'' @ the targetPart
                            @ js ''". Try CET, Berlin, or Europe/Berlin''))
                   | Inr (tgt # _) \<Rightarrow>
                       Inr \<lparr> timeStr = ts, hours = h, minutes = m, sourceTimezone = src,
                             sourceLabel = sourcePart, targetTimezone = Some tgt, error = None \<rparr>)
                else
                  Inr \<lparr> timeStr = ts, hours = h, minutes = m, sourceTimezone = src,
                        sourceLabel = sourcePart, targetTimezone = None, error = None \<rparr>))\<close>

definition parseQuery :: "(jsstring \<Rightarrow> bool) \<Rightarrow> jsstring \<Rightarrow> jserror + ParsedQuery" where
  "parseQuery valid query =
     (let trimmed = trim query in
      if trimmed = [] then
        Inr (failure [] 0 0 (Str []) []
               (js ''Empty query. Try something like: 7:22 CET or 7:22pm PST to CET''))
      else
        (case TIME_RE trimmed of
           None \<Rightarrow>
             Inr (failure [] 0 0 (Str []) []
                    (js ''Invalid time format. Use HH, HH:MM, or HH.MM, e.g., 11 CET, 7:22, or 7.22pm''))
         | Some timeMatch \<Rightarrow>
             let hours0 = parseInt (hourGroup timeMatch);
                 minutes = (case minuteGroup timeMatch of None \<Rightarrow> 0 | Some g \<Rightarrow> parseInt g);
                 ampm = map_option toLowerCase (meridiemGroup timeMatch)
             in if ampm \<noteq> None \<and> (hours0 < 1 \<or> hours0 > 12) then
                  Inr (failure (whole timeMatch) hours0 minutes (Str []) []
                         (js ''Invalid time: hour must be 1-12 when using AM/PM''))
                else if ampm = None \<and> hours0 > 23 then
                  Inr (failure (whole timeMatch) hours0 minutes (Str []) []
                         (js ''Invalid time: hour must be 0-23''))
                else
                  let hours1 = (if ampm = Some (js ''pm'') \<and> hours0 \<noteq> 12 then hours0 + 12 else hours0);
                      hours2 = (if ampm = Some (js ''am'') \<and> hours1 = 12 then 0 else hours1)
                  in if minutes > 59 then
                       Inr (failure (whole timeMatch) hours2 minutes (Str []) []
                              (js ''Invalid time: minutes must be 0-59''))
                     else
                       parseZones valid (trim (whole timeMatch)) hours2 minutes
                         (trim (slice_from (length (whole timeMatch)) trimmed))))"

section \<open>Time conversion (timezone-utils.ts)\<close>

text \<open>
  What \<open>convertTime\<close> takes from its host: the local zone
  (\<open>Intl.DateTimeFormat().resolvedOptions().timeZone\<close>), the current instant
  (\<open>new Date()\<close>, in milliseconds since the epoch), each zone's offset from UTC in
  minutes at an instant, and the two renderings \<open>Intl\<close> produces (the short zone name
  and the clock text of the locale).
\<close>

record Host =
  timeZone :: jsstring
  now :: int
  offsetAt :: "jsstring \<Rightarrow> int \<Rightarrow> int"
  timeZoneName :: "jsstring \<Rightarrow> int \<Rightarrow> jsstring"
  localeTime :: "jsstring \<Rightarrow> int \<Rightarrow> jsstring"

text \<open>
  The calendar \<open>Intl.DateTimeFormat("en-US")\<close> reads an instant with is the Gregorian
  one. \<open>civil_from_days\<close> gives year, month and day of a day counted from 1970-01-01.
\<close>

definition civil_from_days :: "int \<Rightarrow> int \<times> int \<times> int" where
  "civil_from_days z0 =
     (let z = z0 + 719468;
          era = z div 146097;
          doe = z - era * 146097;
          yoe = (doe - doe div 1460 + doe div 36524 - doe div 146096) div 365;
          y = yoe + era * 400;
          doy = doe - (365 * yoe + yoe div 4 - yoe div 100);
          mp = (5 * doy + 2) div 153;
          d = doy - (153 * mp + 2) div 5 + 1;
          m = (if mp < 10 then mp + 3 else mp - 9)
      in (if m \<le> 2 then y + 1 else y, m, d))"

definition zoneOffset :: "Host \<Rightarrow> jsstring \<Rightarrow> int \<Rightarrow> int" where
  "zoneOffset host tz date = (if tz = js ''UTC'' then 0 else offsetAt host tz date)"

definition getDateParts :: "Host \<Rightarrow> int \<Rightarrow> jsstring \<Rightarrow> DateParts" where
  "getDateParts host date tz =
     (let wall = date div 60000 + zoneOffset host tz date;
          (y, m, d) = civil_from_days (wall div 1440)
      in \<lparr> year = y, month = m, day = d,
           hour = ((wall mod 1440) div 60) mod 24, minute = wall mod 60 \<rparr>)"

definition getUtcOffsetMinutes :: "Host \<Rightarrow> jsstring \<Rightarrow> int \<Rightarrow> int" where
  "getUtcOffsetMinutes host tz date =
     (let utcParts = getDateParts host date (js ''UTC'');
          tzParts = getDateParts host date tz;
          utcMinutes = year utcParts * 525960 + month utcParts * 43800 + day utcParts * 1440
                         + hour utcParts * 60 + minute utcParts;
          tzMinutes = year tzParts * 525960 + month tzParts * 43800 + day tzParts * 1440
                         + hour tzParts * 60 + minute tzParts
      in tzMinutes - utcMinutes)"

definition formatUtcOffset :: "int \<Rightarrow> jsstring" where
  "formatUtcOffset offsetMinutes =
     (let sign = (if offsetMinutes \<ge> 0 then js ''+'' else js ''-'');
          a = \<bar>offsetMinutes\<bar>;
          h = a div 60;
          m = a mod 60
      in sign @ padStart 2 48 (String h) @ js '':'' @ padStart 2 48 (String m))"

definition getAbbreviation :: "Host \<Rightarrow> int \<Rightarrow> jsstring \<Rightarrow> jsstring" where
  "getAbbreviation host date tz =
     (if timeZoneName host tz date \<noteq> [] then timeZoneName host tz date else tz)"

definition formatTimeInTz :: "Host \<Rightarrow> int \<Rightarrow> jsstring \<Rightarrow> jsstring" where
  "formatTimeInTz host date tz = localeTime host tz date"

definition formatTime :: "int \<Rightarrow> int \<Rightarrow> jsstring" where
  "formatTime h m = String h @ js '':'' @ padStart 2 48 (String m)"

text \<open>\<open>Date.UTC\<close> of today's UTC date with the given hour and minute.\<close>

definition refDate :: "Host \<Rightarrow> int \<Rightarrow> int \<Rightarrow> int" where
  "refDate host h m = (now host div 86400000) * 86400000 + h * 3600000 + m * 60000"

definition convertTime ::
  "Host \<Rightarrow> int \<Rightarrow> int \<Rightarrow> jsstring \<Rightarrow> jsstring \<Rightarrow> jsstring option \<Rightarrow> ConvertedTime" where
  "convertTime host h m sourceIana targetIana disambiguationLabel =
     (let localIana = timeZone host;
          ref = refDate host h m;
          sourceOffset = getUtcOffsetMinutes host sourceIana ref;
          actualUtcDate = ref - sourceOffset * 60000;
          targetOffset = getUtcOffsetMinutes host targetIana actualUtcDate;
          sourceParts = getDateParts host actualUtcDate sourceIana;
          targetParts = getDateParts host actualUtcDate targetIana;
          d0 = day targetParts - day sourceParts;
          d1 = (if d0 > 15 then d0 - 30 else d0);
          d2 = (if d1 < - 15 then d1 + 30 else d1)
      in \<lparr> ConvertedTime.ianaId = targetIana,
           abbreviation' = getAbbreviation host actualUtcDate targetIana,
           formattedTime = formatTimeInTz host actualUtcDate targetIana,
           utcOffset = formatUtcOffset targetOffset,
           dayOffset = d2,
           isLocal = (targetIana = localIana),
           ConvertedTime.label = disambiguationLabel,
           ConvertedTime.hours = hour targetParts,
           ConvertedTime.minutes = minute targetParts \<rparr>)"

section \<open>Target assembly (timezone-utils.ts)\<close>

text \<open>
  The closure \<open>add\<close> works on the set \<open>seen\<close> and the array \<open>targets\<close>; the model
  passes both along as a pair. A loop whose body can raise stops at the first exception.
\<close>

definition add :: "jsval \<Rightarrow> jsval set \<times> Target list \<Rightarrow> jsval set \<times> Target list" where
  "add tz st =
     (case st of (seen, targets) \<Rightarrow>
        if tz \<in> seen then (seen, targets)
        else (insert tz seen, targets @ [\<lparr> ianaId = tz, label = None \<rparr>]))"

definition addAll :: "jsval list \<Rightarrow> jsval set \<times> Target list \<Rightarrow> jsval set \<times> Target list" where
  "addAll zones st = foldl (\<lambda>acc tz. add tz acc) st zones"

fun forEach :: "('s \<Rightarrow> 'a \<Rightarrow> jserror + 's) \<Rightarrow> 's \<Rightarrow> 'a list \<Rightarrow> jserror + 's" where
  "forEach body st [] = Inr st"
| "forEach body st (x # xs) =
     (case body st x of
        Inl e \<Rightarrow> Inl e
      | Inr st' \<Rightarrow> forEach body st' xs)"

definition addFavorite ::
  "(jsstring \<Rightarrow> bool) \<Rightarrow> jsval set \<times> Target list \<Rightarrow> jsstring
     \<Rightarrow> jserror + jsval set \<times> Target list" where
  "addFavorite valid st entry =
     (if entry = [] then Inr st
      else (case resolveTimezone valid (Str entry) of
              Inl e \<Rightarrow> Inl e
            | Inr resolved \<Rightarrow> Inr (addAll resolved st)))"

definition addTarget ::
  "(jsstring \<Rightarrow> bool) \<Rightarrow> ParsedQuery \<Rightarrow> jsval set \<times> Target list
     \<Rightarrow> jserror + jsval set \<times> Target list" where
  "addTarget valid parsed st =
     (case targetTimezone parsed of
        None \<Rightarrow> Inr st
      | Some target \<Rightarrow>
          if truthy target then
            (case resolveTimezone valid target of
               Inl e \<Rightarrow> Inl e
             | Inr targetResolved \<Rightarrow>
                 if targetResolved = [] then Inr (add target st)
                 else Inr (addAll targetResolved st))
          else Inr st)"

definition getTargetTimezones ::
  "(jsstring \<Rightarrow> bool) \<Rightarrow> jsstring \<Rightarrow> ParsedQuery \<Rightarrow> jsstring \<Rightarrow> jserror + Target list" where
  "getTargetTimezones valid localIana parsed favoriteSetting =
     (case addTarget valid parsed (add (Str localIana) ({}, [])) of
        Inl e \<Rightarrow> Inl e
      | Inr st1 \<Rightarrow>
          (case (if trim favoriteSetting \<noteq> [] then
                   forEach (addFavorite valid) st1 (map trim (split_on 44 favoriteSetting))
                 else Inr st1) of
             Inl e \<Rightarrow> Inl e
           | Inr st2 \<Rightarrow> Inr (snd st2)))"

definition getInvalidFavorites :: "(jsstring \<Rightarrow> bool) \<Rightarrow> jsstring \<Rightarrow> jserror + jsstring list" where
  "getInvalidFavorites valid favoriteSetting =
     (if trim favoriteSetting = [] then Inr []
      else forEach
             (\<lambda>invalid entry.
                if entry = [] then Inr invalid
                else (case resolveTimezone valid (Str entry) of
                        Inl e \<Rightarrow> Inl e
                      | Inr resolved \<Rightarrow> Inr (if resolved = [] then invalid @ [entry] else invalid)))
             [] (map trim (split_on 44 favoriteSetting)))"

section \<open>Sample hosts\<close>

text \<open>
  A host for evaluating the functions at concrete inputs: a validator that accepts a few
  identifiers of the tz database, among them the bare name \<open>CET\<close>.
\<close>

definition sampleZones :: "string list" where
  "sampleZones =
     [''UTC'', ''CET'', ''Europe/Berlin'', ''Europe/London'', ''Europe/Helsinki'',
      ''Asia/Kolkata'', ''Asia/Jerusalem'', ''Europe/Dublin'', ''America/Los_Angeles'',
      ''Asia/Tokyo'']"

definition sampleValid :: "jsstring \<Rightarrow> bool" where
  "sampleValid tz \<longleftrightarrow> tz \<in> set (map js sampleZones)"


text \<open>
  A host for evaluating \<open>convertTime\<close>: the current instant is noon UTC on
  2026-01-31 (day 20484 after 1970-01-01), \<open>Europe/Helsinki\<close> is two hours ahead of
  UTC throughout, every other zone is at UTC.
\<close>

definition monthEndHost :: Host where
  "monthEndHost =
     \<lparr> timeZone = js ''Europe/London'',
       now = 20484 * 86400000 + 43200000,
       offsetAt = (\<lambda>tz date. if tz = js ''Europe/Helsinki'' then 120 else 0),
       timeZoneName = (\<lambda>tz date. if tz = js ''Europe/Helsinki'' then js ''GMT+2'' else js ''UTC''),
       localeTime = (\<lambda>tz date. []) \<rparr>"

section \<open>Query parsing: the steps on concrete inputs\<close>

lemma resolveTimezone_phrase:
  assumes "trim s = t" and "t \<noteq> []" and "ianaGuess t = g"
    and "shortFormStage (toLowerCase t) = r"
  shows "resolveTimezone valid (Str s) =
     (if valid t then Inr [Str t] else if g \<noteq> t \<and> valid g then Inr [Str g] else r)"
  using assms by (simp add: resolveTimezone_def isValidIana_def Let_def)

lemma parseQuery_steps:
  assumes "trim q = t" and "t \<noteq> []" and "TIME_RE t = Some tm"
    and "parseInt (hourGroup tm) = hr"
    and "(case minuteGroup tm of None \<Rightarrow> 0 | Some g \<Rightarrow> parseInt g) = m"
    and "map_option toLowerCase (meridiemGroup tm) = ap"
    and "\<not> (ap \<noteq> None \<and> (hr < 1 \<or> hr > 12))" and "\<not> (ap = None \<and> hr > 23)" and "\<not> m > 59"
    and "(if ap = Some (js ''am'') \<and> (if ap = Some (js ''pm'') \<and> hr \<noteq> 12 then hr + 12 else hr) = 12
          then 0 else (if ap = Some (js ''pm'') \<and> hr \<noteq> 12 then hr + 12 else hr)) = hc"
    and "trim (whole tm) = ts" and "trim (slice_from (length (whole tm)) t) = rest"
  shows "parseQuery valid q = parseZones valid ts hc m rest"
  unfolding parseQuery_def Let_def
  by (simp only: assms if_False option.case)

lemma parseZones_unknown:
  assumes "TO_RE rest = None" and "rest \<noteq> []" and "resolveTimezone valid (Str rest) = Inr []"
  shows \<open>parseZones valid ts h m rest =
     Inr (failure ts h m (Str []) rest
            (js ''Unknown timezone: "'' @ rest @ js ''". Try CET, Berlin, or Europe/Berlin''))\<close>
  using assms by (simp add: parseZones_def Let_def)

lemma parseZones_source_only:
  assumes "TO_RE rest = None" and "rest \<noteq> []" and "resolveTimezone valid (Str rest) = Inr (z # zs)"
  shows "parseZones valid ts h m rest =
     Inr \<lparr> timeStr = ts, hours = h, minutes = m, sourceTimezone = z, sourceLabel = rest,
           targetTimezone = None, error = None \<rparr>"
  using assms by (simp add: parseZones_def Let_def)

section \<open>The meridiem of the time pattern\<close>

lemma am_neq_pm: "js ''am'' \<noteq> js ''pm''"
  by code_simp

lemma resolve_sterdam:
  assumes "\<not> valid (js ''sterdam'')" and "\<not> valid (js ''Sterdam'')"
  shows "resolveTimezone valid (Str (js ''sterdam'')) = Inr []"
proof -
  have "resolveTimezone valid (Str (js ''sterdam'')) =
     (if valid (js ''sterdam'') then Inr [Str (js ''sterdam'')]
      else if js ''Sterdam'' \<noteq> js ''sterdam'' \<and> valid (js ''Sterdam'') then Inr [Str (js ''Sterdam'')]
      else Inr [])"
  proof (rule resolveTimezone_phrase)
    show "trim (js ''sterdam'') = js ''sterdam''" by code_simp
    show "js ''sterdam'' \<noteq> []" by code_simp
    show "ianaGuess (js ''sterdam'') = js ''Sterdam''" by code_simp
    show "shortFormStage (toLowerCase (js ''sterdam'')) = Inr []" by code_simp
  qed
  with assms show ?thesis by simp
qed

lemma meridiem_letters:
  assumes "a \<in> set (js ''aApP'')" and "b \<in> set (js ''mM'')"
  shows "match_meridiem (a # b # rest) = Some [a, b]" and "\<not> is_space a" and "\<not> is_digit a"
    and "a \<noteq> 58" and "a \<noteq> 46"
proof -
  have "js ''aApP'' = [97, 65, 112, 80]" and "js ''mM'' = [109, 77]" by code_simp+
  with assms have a: "a = 97 \<or> a = 65 \<or> a = 112 \<or> a = 80" and b: "b = 109 \<or> b = 77" by auto
  from a b show "match_meridiem (a # b # rest) = Some [a, b]"
    by (auto simp: match_meridiem_def ascii_lower_def is_upper_def)
  from a show "\<not> is_space a" by (auto simp: is_space_def)
  from a show "\<not> is_digit a" by (auto simp: is_digit_def)
  from a show "a \<noteq> 58" and "a \<noteq> 46" by auto
qed

lemma space_facts:
  assumes "is_space c"
  shows "\<not> is_digit c" and "c \<noteq> 58" and "c \<noteq> 46"
  using assms by (auto simp: is_space_def is_digit_def)

lemma bare_hour_meridiem:
  assumes "length hs = 1 \<or> length hs = 2" and "\<forall>c \<in> set hs. is_digit c"
    and "\<forall>c \<in> set ws. is_space c"
    and "a \<in> set (js ''aApP'')" and "b \<in> set (js ''mM'')"
  shows "TIME_RE (hs @ ws @ a # b # rest) =
     Some \<lparr> whole = hs @ ws @ [a, b], hourGroup = hs, minuteGroup = None,
            meridiemGroup = Some [a, b] \<rparr>"
proof -
  let ?r = "ws @ a # b # rest"
  note ml = meridiem_letters [OF assms(4,5)]
  have hd: "\<not> is_digit (hd ?r)" and sep: "hd ?r \<noteq> 58" "hd ?r \<noteq> 46"
    using assms(3) ml(3,4,5) space_facts by (cases ws; simp)+
  obtain x xs where r: "?r = x # xs" by (cases ?r) simp_all
  from hd sep r have x: "\<not> is_digit x" "x \<noteq> 58" "x \<noteq> 46" by simp_all
  have mm: "match_minute ?r = None"
    unfolding r using x by (simp add: match_minute_def split: list.splits)
  have tw: "takeWhile is_space ?r = ws" and dw: "dropWhile is_space ?r = a # b # rest"
    using assms(3) ml(2) by simp_all
  have mh: "match_hour (hs @ ?r) = Some (hs, ?r)"
  proof -
    from assms(1) consider d where "hs = [d]" | d e where "hs = [d, e]"
      by (cases hs; cases "tl hs"; auto)
    then show ?thesis
    proof cases
      case 1
      with assms(2) have "is_digit d" by simp
      with 1 x show ?thesis unfolding r 1 by (simp add: match_hour_def)
    next
      case 2
      with assms(2) have "is_digit d" "is_digit e" by simp_all
      with 2 show ?thesis by (simp add: match_hour_def)
    qed
  qed
  show ?thesis
    unfolding TIME_RE_def mh by (simp add: mm tw dw ml(1) Let_def)
qed

text \<open>
  Claim C9. The optional meridiem of the time pattern has no word boundary after it:
  after a bare hour of one or two digits and any white space, the letters \<open>am\<close> or
  \<open>pm\<close>, in either case, are taken as the meridiem whatever follows them, so a zone
  phrase that begins with them loses its first two letters. On the input
  \<open>7 amsterdam\<close> the pattern takes \<open>7 am\<close> as the time (7 AM), the zone phrase that
  is left is \<open>sterdam\<close>, and on a host that knows no zone of that name (in either
  spelling the resolver tries) \<open>parseQuery\<close> returns the unknown-timezone error instead
  of resolving Amsterdam.
\<close>

theorem meridiem_without_word_boundary:
  assumes "\<not> valid (js ''sterdam'')" and "\<not> valid (js ''Sterdam'')"
  shows \<open>(\<forall>hs ws a b rest.
            (length hs = 1 \<or> length hs = 2) \<and> (\<forall>c \<in> set hs. is_digit c)
            \<and> (\<forall>c \<in> set ws. is_space c)
            \<and> a \<in> set (js ''aApP'') \<and> b \<in> set (js ''mM'') \<longrightarrow>
            TIME_RE (hs @ ws @ a # b # rest) =
              Some \<lparr> whole = hs @ ws @ [a, b], hourGroup = hs, minuteGroup = None,
                     meridiemGroup = Some [a, b] \<rparr>)
         \<and> TIME_RE (js ''7 amsterdam'') =
             Some \<lparr> whole = js ''7 am'', hourGroup = js ''7'', minuteGroup = None,
                    meridiemGroup = Some (js ''am'') \<rparr>
         \<and> parseQuery valid (js ''7 amsterdam'') =
             Inr \<lparr> timeStr = js ''7 am'', hours = 7, minutes = 0, sourceTimezone = Str [],
                   sourceLabel = js ''sterdam'', targetTimezone = None,
                   error = Some (js ''Unknown timezone: "sterdam". Try CET, Berlin, or Europe/Berlin'') \<rparr>\<close>
proof -
  let ?tm = "\<lparr> whole = js ''7 am'', hourGroup = js ''7'', minuteGroup = None,
                meridiemGroup = Some (js ''am'') \<rparr>"
  have tm: "TIME_RE (js ''7 amsterdam'') = Some ?tm" by code_simp
  have "parseQuery valid (js ''7 amsterdam'') = parseZones valid (js ''7 am'') 7 0 (js ''sterdam'')"
  proof (rule parseQuery_steps [where tm = ?tm and ap = "Some (js ''am'')" and hr = 7])
    show "trim (js ''7 amsterdam'') = js ''7 amsterdam''" by code_simp
    show "js ''7 amsterdam'' \<noteq> []" by code_simp
    show "TIME_RE (js ''7 amsterdam'') = Some ?tm" by (rule tm)
    show "parseInt (hourGroup ?tm) = 7" by code_simp
    show "map_option toLowerCase (meridiemGroup ?tm) = Some (js ''am'')" by code_simp
    show "trim (whole ?tm) = js ''7 am''" by code_simp
    show "trim (slice_from (length (whole ?tm)) (js ''7 amsterdam'')) = js ''sterdam''" by code_simp
  qed (simp_all add: am_neq_pm)
  moreover have "TO_RE (js ''sterdam'') = None" by code_simp
  moreover have "js ''sterdam'' \<noteq> []" by code_simp
  moreover have \<open>js ''Unknown timezone: "'' @ js ''sterdam'' @ js ''". Try CET, Berlin, or Europe/Berlin''
     = js ''Unknown timezone: "sterdam". Try CET, Berlin, or Europe/Berlin''\<close>
    by (simp add: js_def)
  ultimately have \<open>parseQuery valid (js ''7 amsterdam'') =
             Inr \<lparr> timeStr = js ''7 am'', hours = 7, minutes = 0, sourceTimezone = Str [],
                   sourceLabel = js ''sterdam'', targetTimezone = None,
                   error = Some (js ''Unknown timezone: "sterdam". Try CET, Berlin, or Europe/Berlin'') \<rparr>\<close>
    using resolve_sterdam [OF assms]
    by (simp add: parseZones_unknown failure_def)
  with tm show ?thesis using bare_hour_meridiem by blast
qed

theorem meridiem_without_word_boundary_witness:
  \<open>\<not> sampleValid (js ''sterdam'') \<and> \<not> sampleValid (js ''Sterdam'')
   \<and> TIME_RE (js ''10 PMT'') =
       Some \<lparr> whole = js ''10 PM'', hourGroup = js ''10'', minuteGroup = None,
              meridiemGroup = Some (js ''PM'') \<rparr>
   \<and> TIME_RE (js ''3pmx'') =
       Some \<lparr> whole = js ''3pm'', hourGroup = js ''3'', minuteGroup = None,
              meridiemGroup = Some (js ''pm'') \<rparr>
   \<and> parseQuery sampleValid (js ''7 amsterdam'') =
       Inr \<lparr> timeStr = js ''7 am'', hours = 7, minutes = 0, sourceTimezone = Str [],
             sourceLabel = js ''sterdam'', targetTimezone = None,
             error = Some (js ''Unknown timezone: "sterdam". Try CET, Berlin, or Europe/Berlin'') \<rparr>\<close>
proof -
  have a: "\<not> sampleValid (js ''sterdam'')" by code_simp
  have b: "\<not> sampleValid (js ''Sterdam'')" by code_simp
  note t = meridiem_without_word_boundary [OF a b]
  have h1: "(length (js ''10'') = 1 \<or> length (js ''10'') = 2) \<and> (\<forall>c \<in> set (js ''10''). is_digit c)
      \<and> (\<forall>c \<in> set (js '' ''). is_space c)
      \<and> hd (js ''P'') \<in> set (js ''aApP'') \<and> hd (js ''M'') \<in> set (js ''mM'')" by code_simp
  have h2: "(length (js ''3'') = 1 \<or> length (js ''3'') = 2) \<and> (\<forall>c \<in> set (js ''3''). is_digit c)
      \<and> (\<forall>c \<in> set (js ''''). is_space c)
      \<and> hd (js ''p'') \<in> set (js ''aApP'') \<and> hd (js ''m'') \<in> set (js ''mM'')" by code_simp
  from t h1 have 1: "TIME_RE (js ''10'' @ js '' '' @ hd (js ''P'') # hd (js ''M'') # js ''T'') =
       Some \<lparr> whole = js ''10'' @ js '' '' @ [hd (js ''P''), hd (js ''M'')], hourGroup = js ''10'',
              minuteGroup = None, meridiemGroup = Some [hd (js ''P''), hd (js ''M'')] \<rparr>"
    by blast
  from t h2 have 2: "TIME_RE (js ''3'' @ js '''' @ hd (js ''p'') # hd (js ''m'') # js ''x'') =
       Some \<lparr> whole = js ''3'' @ js '''' @ [hd (js ''p''), hd (js ''m'')], hourGroup = js ''3'',
              minuteGroup = None, meridiemGroup = Some [hd (js ''p''), hd (js ''m'')] \<rparr>"
    by blast
  from 1 2 t a b show ?thesis by (simp add: js_def)
qed

section \<open>The minute of the time pattern\<close>

lemma resolve_colon5:
  assumes "\<not> valid (js '':5 CET'')" and "\<not> valid (js '':5 cet'')"
  shows "resolveTimezone valid (Str (js '':5 CET'')) = Inr []"
proof -
  have "resolveTimezone valid (Str (js '':5 CET'')) =
     (if valid (js '':5 CET'') then Inr [Str (js '':5 CET'')]
      else if js '':5 cet'' \<noteq> js '':5 CET'' \<and> valid (js '':5 cet'') then Inr [Str (js '':5 cet'')]
      else Inr [])"
  proof (rule resolveTimezone_phrase)
    show "trim (js '':5 CET'') = js '':5 CET''" by code_simp
    show "js '':5 CET'' \<noteq> []" by code_simp
    show "ianaGuess (js '':5 CET'') = js '':5 cet''" by code_simp
    show "shortFormStage (toLowerCase (js '':5 CET'')) = Inr []" by code_simp
  qed
  with assms show ?thesis by simp
qed

lemma colon_chars:
  "\<not> is_digit 58" "\<not> is_space 58" "ascii_lower 58 = 58"
  by (simp_all add: is_digit_def is_space_def ascii_lower_def is_upper_def)

lemma one_digit_minute_skipped:
  assumes "is_digit a" and "is_digit c" and "r = [] \<or> \<not> is_digit (hd r)"
  shows "TIME_RE (a # 58 # c # r) =
     Some \<lparr> whole = [a], hourGroup = [a], minuteGroup = None, meridiemGroup = None \<rparr>"
proof -
  have mh: "match_hour (a # 58 # c # r) = Some ([a], 58 # c # r)"
    using assms(1) colon_chars(1) by (simp add: match_hour_def)
  have mm: "match_minute (58 # c # r) = None"
    using assms(3) by (cases r) (simp_all add: match_minute_def)
  have ap: "match_meridiem (58 # c # r) = None"
    by (simp add: match_meridiem_def colon_chars)
  show ?thesis
    by (simp add: TIME_RE_def mh mm ap colon_chars)
qed

text \<open>
  Claim C10. The minute group of the time pattern needs exactly two digits: after a
  one-digit hour, a colon (code unit 58) and a single digit that no further digit
  follows, the pattern reads the hour alone and no minute. On the input \<open>7:5 CET\<close> the
  time is read as hour 7 with minute 0, the rest \<open>:5 CET\<close> becomes the source-zone
  phrase, and on a host that knows no zone of that name (in either spelling the resolver
  tries) \<open>parseQuery\<close> returns the unknown-timezone error, not a time-format or
  minute-range error.
\<close>

theorem one_digit_minute_not_read:
  assumes "\<not> valid (js '':5 CET'')" and "\<not> valid (js '':5 cet'')"
  shows \<open>(\<forall>a c r. is_digit a \<and> is_digit c \<and> (r = [] \<or> \<not> is_digit (hd r)) \<longrightarrow>
            TIME_RE (a # 58 # c # r) =
              Some \<lparr> whole = [a], hourGroup = [a], minuteGroup = None,
                     meridiemGroup = None \<rparr>)
         \<and> parseQuery valid (js ''7:5 CET'') =
           Inr \<lparr> timeStr = js ''7'', hours = 7, minutes = 0, sourceTimezone = Str [],
                 sourceLabel = js '':5 CET'', targetTimezone = None,
                 error = Some (js ''Unknown timezone: ":5 CET". Try CET, Berlin, or Europe/Berlin'') \<rparr>\<close>
proof -
  let ?tm = "\<lparr> whole = js ''7'', hourGroup = js ''7'', minuteGroup = None, meridiemGroup = None \<rparr>"
  have tm: "TIME_RE (js ''7:5 CET'') = Some ?tm" by code_simp
  have "parseQuery valid (js ''7:5 CET'') = parseZones valid (js ''7'') 7 0 (js '':5 CET'')"
  proof (rule parseQuery_steps [where tm = ?tm and ap = None and hr = 7])
    show "trim (js ''7:5 CET'') = js ''7:5 CET''" by code_simp
    show "js ''7:5 CET'' \<noteq> []" by code_simp
    show "TIME_RE (js ''7:5 CET'') = Some ?tm" by (rule tm)
    show "parseInt (hourGroup ?tm) = 7" by code_simp
    show "trim (whole ?tm) = js ''7''" by code_simp
    show "trim (slice_from (length (whole ?tm)) (js ''7:5 CET'')) = js '':5 CET''" by code_simp
  qed simp_all
  moreover have "TO_RE (js '':5 CET'') = None" by code_simp
  moreover have "js '':5 CET'' \<noteq> []" by code_simp
  moreover have \<open>js ''Unknown timezone: "'' @ js '':5 CET'' @ js ''". Try CET, Berlin, or Europe/Berlin''
     = js ''Unknown timezone: ":5 CET". Try CET, Berlin, or Europe/Berlin''\<close>
    by (simp add: js_def)
  ultimately have \<open>parseQuery valid (js ''7:5 CET'') =
           Inr \<lparr> timeStr = js ''7'', hours = 7, minutes = 0, sourceTimezone = Str [],
                 sourceLabel = js '':5 CET'', targetTimezone = None,
                 error = Some (js ''Unknown timezone: ":5 CET". Try CET, Berlin, or Europe/Berlin'') \<rparr>\<close>
    using resolve_colon5 [OF assms]
    by (simp add: parseZones_unknown failure_def)
  then show ?thesis using one_digit_minute_skipped by blast
qed

theorem one_digit_minute_not_read_witness:
  \<open>js ''7:5 CET'' = 55 # 58 # 53 # js '' CET''
   \<and> is_digit 55 \<and> is_digit 53 \<and> \<not> is_digit (hd (js '' CET''))
   \<and> TIME_RE (js ''7:5 CET'') =
       Some \<lparr> whole = js ''7'', hourGroup = js ''7'', minuteGroup = None, meridiemGroup = None \<rparr>
   \<and> \<not> sampleValid (js '':5 CET'') \<and> \<not> sampleValid (js '':5 cet'')
   \<and> parseQuery sampleValid (js ''7:5 CET'') =
       Inr \<lparr> timeStr = js ''7'', hours = 7, minutes = 0, sourceTimezone = Str [],
             sourceLabel = js '':5 CET'', targetTimezone = None,
             error = Some (js ''Unknown timezone: ":5 CET". Try CET, Berlin, or Europe/Berlin'') \<rparr>\<close>
proof -
  have a: "\<not> sampleValid (js '':5 CET'')" by code_simp
  have b: "\<not> sampleValid (js '':5 cet'')" by code_simp
  have q: "js ''7:5 CET'' = 55 # 58 # 53 # js '' CET''" by code_simp
  have s: "js ''7'' = [55]" by code_simp
  have d: "is_digit 55" "is_digit 53" "\<not> is_digit (hd (js '' CET''))" by code_simp+
  then have h: "is_digit 55 \<and> is_digit 53
      \<and> (js '' CET'' = [] \<or> \<not> is_digit (hd (js '' CET'')))" by simp
  from one_digit_minute_not_read [OF a b] h
  have "TIME_RE (55 # 58 # 53 # js '' CET'') =
       Some \<lparr> whole = [55], hourGroup = [55], minuteGroup = None, meridiemGroup = None \<rparr>"
    by blast
  with one_digit_minute_not_read [OF a b] a b d q s show ?thesis by simp
qed

section \<open>Query parsing: the order of the range checks\<close>

lemma TIME_RE_Nil: "TIME_RE [] = None"
  by (simp add: TIME_RE_def match_hour_def)

lemma parseQuery_meridiem_hour_error:
  assumes "TIME_RE (trim q) = Some tm" and "meridiemGroup tm \<noteq> None"
    and "parseInt (hourGroup tm) < 1 \<or> parseInt (hourGroup tm) > 12"
  shows "parseQuery valid q =
     Inr (failure (whole tm) (parseInt (hourGroup tm))
            (case minuteGroup tm of None \<Rightarrow> 0 | Some g \<Rightarrow> parseInt g) (Str []) []
            (js ''Invalid time: hour must be 1-12 when using AM/PM''))"
proof -
  from assms(1) have "trim q \<noteq> []" using TIME_RE_Nil by auto
  with assms show ?thesis
    by (auto simp: parseQuery_def Let_def)
qed

lemma parseQuery_plain_hour_error:
  assumes "TIME_RE (trim q) = Some tm" and "meridiemGroup tm = None"
    and "parseInt (hourGroup tm) > 23"
  shows "parseQuery valid q =
     Inr (failure (whole tm) (parseInt (hourGroup tm))
            (case minuteGroup tm of None \<Rightarrow> 0 | Some g \<Rightarrow> parseInt g) (Str []) []
            (js ''Invalid time: hour must be 0-23''))"
proof -
  from assms(1) have "trim q \<noteq> []" using TIME_RE_Nil by auto
  with assms show ?thesis
    by (auto simp: parseQuery_def Let_def)
qed

lemma parseQuery_minute_error:
  assumes "TIME_RE (trim q) = Some tm" and "meridiemGroup tm = None"
    and "parseInt (hourGroup tm) \<le> 23" and "minuteGroup tm = Some g" and "parseInt g > 59"
  shows "parseQuery valid q =
     Inr (failure (whole tm) (parseInt (hourGroup tm)) (parseInt g) (Str []) []
            (js ''Invalid time: minutes must be 0-59''))"
proof -
  from assms(1) have "trim q \<noteq> []" using TIME_RE_Nil by auto
  with assms show ?thesis
    by (auto simp: parseQuery_def Let_def)
qed

text \<open>
  Claim C6. \<open>parseQuery "25:00 CET"\<close> fails with the error that the hour must be 0-23
  and \<open>parseQuery "7:60 CET"\<close> with the error that minutes must be 0-59. For every
  input whose hour and minute are both out of range (the minute above 59; the hour
  above 23 when the time has no meridiem, below 1 or above 12 when it has one), the
  hour check fires first: the result carries the hour-range error of that mode and
  nothing else, on every host.
\<close>

theorem range_errors_hour_first:
  "parseQuery valid (js ''25:00 CET'') =
     Inr \<lparr> timeStr = js ''25:00 '', hours = 25, minutes = 0, sourceTimezone = Str [],
           sourceLabel = [], targetTimezone = None,
           error = Some (js ''Invalid time: hour must be 0-23'') \<rparr>
   \<and> parseQuery valid (js ''7:60 CET'') =
     Inr \<lparr> timeStr = js ''7:60 '', hours = 7, minutes = 60, sourceTimezone = Str [],
           sourceLabel = [], targetTimezone = None,
           error = Some (js ''Invalid time: minutes must be 0-59'') \<rparr>
   \<and> (\<forall>query tm g.
         TIME_RE (trim query) = Some tm \<and> minuteGroup tm = Some g \<and> parseInt g > 59
         \<and> (if meridiemGroup tm = None then parseInt (hourGroup tm) > 23
             else parseInt (hourGroup tm) < 1 \<or> parseInt (hourGroup tm) > 12)
         \<longrightarrow> parseQuery valid query =
               Inr \<lparr> timeStr = whole tm, hours = parseInt (hourGroup tm), minutes = parseInt g,
                     sourceTimezone = Str [], sourceLabel = [], targetTimezone = None,
                     error = Some (if meridiemGroup tm = None
                                   then js ''Invalid time: hour must be 0-23''
                                   else js ''Invalid time: hour must be 1-12 when using AM/PM'') \<rparr>)"
proof -
  let ?p = "\<lparr> whole = js ''25:00 '', hourGroup = js ''25'', minuteGroup = Some (js ''00''),
              meridiemGroup = None \<rparr>"
  let ?m = "\<lparr> whole = js ''7:60 '', hourGroup = js ''7'', minuteGroup = Some (js ''60''),
              meridiemGroup = None \<rparr>"
  have a: "parseQuery valid (js ''25:00 CET'') =
     Inr (failure (whole ?p) (parseInt (hourGroup ?p))
            (case minuteGroup ?p of None \<Rightarrow> 0 | Some g \<Rightarrow> parseInt g) (Str []) []
            (js ''Invalid time: hour must be 0-23''))"
  proof (rule parseQuery_plain_hour_error)
    show "TIME_RE (trim (js ''25:00 CET'')) = Some ?p" by code_simp
    show "parseInt (hourGroup ?p) > 23" by code_simp
  qed simp
  have b: "parseQuery valid (js ''7:60 CET'') =
     Inr (failure (whole ?m) (parseInt (hourGroup ?m)) (parseInt (js ''60'')) (Str []) []
            (js ''Invalid time: minutes must be 0-59''))"
  proof (rule parseQuery_minute_error)
    show "TIME_RE (trim (js ''7:60 CET'')) = Some ?m" by code_simp
    show "parseInt (hourGroup ?m) \<le> 23" by code_simp
    show "parseInt (js ''60'') > 59" by code_simp
  qed simp_all
  have n: "parseInt (js ''25'') = 25" "parseInt (js ''00'') = 0" "parseInt (js ''7'') = 7"
    "parseInt (js ''60'') = 60" by code_simp+
  have c: "parseQuery valid query =
               Inr \<lparr> timeStr = whole tm, hours = parseInt (hourGroup tm), minutes = parseInt g,
                     sourceTimezone = Str [], sourceLabel = [], targetTimezone = None,
                     error = Some (if meridiemGroup tm = None
                                   then js ''Invalid time: hour must be 0-23''
                                   else js ''Invalid time: hour must be 1-12 when using AM/PM'') \<rparr>"
    if "TIME_RE (trim query) = Some tm" and "minuteGroup tm = Some g" and "parseInt g > 59"
      and "if meridiemGroup tm = None then parseInt (hourGroup tm) > 23
           else parseInt (hourGroup tm) < 1 \<or> parseInt (hourGroup tm) > 12"
    for query tm g
  proof (cases "meridiemGroup tm = None")
    case True
    with that(4) have "parseInt (hourGroup tm) > 23" by simp
    from parseQuery_plain_hour_error [OF that(1) True this, of valid] that(2) True
    show ?thesis by (simp add: failure_def)
  next
    case False
    with that(4) have "parseInt (hourGroup tm) < 1 \<or> parseInt (hourGroup tm) > 12" by simp
    from parseQuery_meridiem_hour_error [OF that(1) False this, of valid] that(2) False
    show ?thesis by (auto simp: failure_def)
  qed
  from a b n have "parseQuery valid (js ''25:00 CET'') =
     Inr \<lparr> timeStr = js ''25:00 '', hours = 25, minutes = 0, sourceTimezone = Str [],
           sourceLabel = [], targetTimezone = None,
           error = Some (js ''Invalid time: hour must be 0-23'') \<rparr>"
    and "parseQuery valid (js ''7:60 CET'') =
     Inr \<lparr> timeStr = js ''7:60 '', hours = 7, minutes = 60, sourceTimezone = Str [],
           sourceLabel = [], targetTimezone = None,
           error = Some (js ''Invalid time: minutes must be 0-59'') \<rparr>"
    by (simp_all add: failure_def)
  with c show ?thesis by blast
qed

theorem range_errors_hour_first_witness:
  "parseQuery sampleValid (js ''25:60 CET'') =
     Inr \<lparr> timeStr = js ''25:60 '', hours = 25, minutes = 60, sourceTimezone = Str [],
           sourceLabel = [], targetTimezone = None,
           error = Some (js ''Invalid time: hour must be 0-23'') \<rparr>
   \<and> parseQuery sampleValid (js ''25:60pm CET'') =
     Inr \<lparr> timeStr = js ''25:60pm'', hours = 25, minutes = 60, sourceTimezone = Str [],
           sourceLabel = [], targetTimezone = None,
           error = Some (js ''Invalid time: hour must be 1-12 when using AM/PM'') \<rparr>
   \<and> parseQuery sampleValid (js ''25:60'' @ [160] @ js ''pm CET'') =
     Inr \<lparr> timeStr = js ''25:60'' @ [160] @ js ''pm'', hours = 25, minutes = 60,
           sourceTimezone = Str [], sourceLabel = [], targetTimezone = None,
           error = Some (js ''Invalid time: hour must be 1-12 when using AM/PM'') \<rparr>"
proof -
  let ?p = "\<lparr> whole = js ''25:60 '', hourGroup = js ''25'', minuteGroup = Some (js ''60''),
              meridiemGroup = None \<rparr>"
  let ?m = "\<lparr> whole = js ''25:60pm'', hourGroup = js ''25'', minuteGroup = Some (js ''60''),
              meridiemGroup = Some (js ''pm'') \<rparr>"
  let ?n = "\<lparr> whole = js ''25:60'' @ [160] @ js ''pm'', hourGroup = js ''25'',
              minuteGroup = Some (js ''60''), meridiemGroup = Some (js ''pm'') \<rparr>"
  have p: "TIME_RE (trim (js ''25:60 CET'')) = Some ?p" by code_simp
  have m: "TIME_RE (trim (js ''25:60pm CET'')) = Some ?m" by code_simp
  have n: "TIME_RE (trim (js ''25:60'' @ [160] @ js ''pm CET'')) = Some ?n" by code_simp
  have g: "parseInt (js ''60'') = 60" by code_simp
  have h: "parseInt (js ''25'') = 25" by code_simp
  have 1: "TIME_RE (trim (js ''25:60 CET'')) = Some ?p \<and> minuteGroup ?p = Some (js ''60'')
      \<and> parseInt (js ''60'') > 59
      \<and> (if meridiemGroup ?p = None then parseInt (hourGroup ?p) > 23
          else parseInt (hourGroup ?p) < 1 \<or> parseInt (hourGroup ?p) > 12)"
    using p g h by simp
  have 2: "TIME_RE (trim (js ''25:60pm CET'')) = Some ?m \<and> minuteGroup ?m = Some (js ''60'')
      \<and> parseInt (js ''60'') > 59
      \<and> (if meridiemGroup ?m = None then parseInt (hourGroup ?m) > 23
          else parseInt (hourGroup ?m) < 1 \<or> parseInt (hourGroup ?m) > 12)"
    using m g h by simp
  have 3: "TIME_RE (trim (js ''25:60'' @ [160] @ js ''pm CET'')) = Some ?n
      \<and> minuteGroup ?n = Some (js ''60'')
      \<and> parseInt (js ''60'') > 59
      \<and> (if meridiemGroup ?n = None then parseInt (hourGroup ?n) > 23
          else parseInt (hourGroup ?n) < 1 \<or> parseInt (hourGroup ?n) > 12)"
    using n g h by simp
  note t = range_errors_hour_first [of sampleValid]
  from t 1 have a: "parseQuery sampleValid (js ''25:60 CET'') =
               Inr \<lparr> timeStr = whole ?p, hours = parseInt (hourGroup ?p), minutes = parseInt (js ''60''),
                     sourceTimezone = Str [], sourceLabel = [], targetTimezone = None,
                     error = Some (if meridiemGroup ?p = None
                                   then js ''Invalid time: hour must be 0-23''
                                   else js ''Invalid time: hour must be 1-12 when using AM/PM'') \<rparr>"
    by blast
  from t 2 have b: "parseQuery sampleValid (js ''25:60pm CET'') =
               Inr \<lparr> timeStr = whole ?m, hours = parseInt (hourGroup ?m), minutes = parseInt (js ''60''),
                     sourceTimezone = Str [], sourceLabel = [], targetTimezone = None,
                     error = Some (if meridiemGroup ?m = None
                                   then js ''Invalid time: hour must be 0-23''
                                   else js ''Invalid time: hour must be 1-12 when using AM/PM'') \<rparr>"
    by blast
  from t 3 have c: "parseQuery sampleValid (js ''25:60'' @ [160] @ js ''pm CET'') =
               Inr \<lparr> timeStr = whole ?n, hours = parseInt (hourGroup ?n), minutes = parseInt (js ''60''),
                     sourceTimezone = Str [], sourceLabel = [], targetTimezone = None,
                     error = Some (if meridiemGroup ?n = None
                                   then js ''Invalid time: hour must be 0-23''
                                   else js ''Invalid time: hour must be 1-12 when using AM/PM'') \<rparr>"
    by blast
  from a b c g h show ?thesis by simp
qed

section \<open>Ambiguous abbreviations\<close>





text \<open>
  The label \<open>__proto__\<close> is answered by \<open>Object.prototype\<close>, which is no array: it
  counts as ambiguous and a label is returned.
\<close>

lemma inherited_label:
  "getDisambiguationLabel (Str (js ''Asia/Kolkata'')) (js ''__proto__'')
     = Some (Str (js ''India Standard Time''))
   \<and> getDisambiguationLabel (Str (js ''Asia/Kolkata'')) (js ''constructor'') = None"
  by code_simp




text \<open>
  Claim C2, evaluated at the query \<open>7 CET to IST\<close>. The target phrase \<open>IST\<close>
  resolves to three zones, but \<open>parseQuery\<close> keeps only the first of them in
  \<open>targetTimezone\<close>; \<open>getTargetTimezones\<close> resolves that identifier again and adds
  one zone, so the list is the local zone and Asia/Kolkata, without Asia/Jerusalem and
  Europe/Dublin.
\<close>

theorem ambiguous_target_not_expanded:
  "resolveTimezone sampleValid (Str (js ''IST'')) =
     Inr [Str (js ''Asia/Kolkata''), Str (js ''Asia/Jerusalem''), Str (js ''Europe/Dublin'')]
   \<and> parseQuery sampleValid (js ''7 CET to IST'') =
     Inr \<lparr> timeStr = js ''7'', hours = 7, minutes = 0, sourceTimezone = Str (js ''CET''),
           sourceLabel = js ''CET'', targetTimezone = Some (Str (js ''Asia/Kolkata'')),
           error = None \<rparr>
   \<and> getTargetTimezones sampleValid (js ''Europe/London'')
       \<lparr> timeStr = js ''7'', hours = 7, minutes = 0, sourceTimezone = Str (js ''CET''),
         sourceLabel = js ''CET'', targetTimezone = Some (Str (js ''Asia/Kolkata'')),
         error = None \<rparr> []
     = Inr [\<lparr> ianaId = Str (js ''Europe/London''), label = None \<rparr>,
            \<lparr> ianaId = Str (js ''Asia/Kolkata''), label = None \<rparr>]"
  by code_simp

section \<open>Members inherited by the tables\<close>

text \<open>
  Claim C5, evaluated at the phrase \<open>constructor\<close>. The phrase is no zone identifier
  of the host, in either spelling the resolver tries, and no key of the short-form,
  abbreviation or city table, so the precedence ends in the empty result. The lookup
  \<open>SHORT_FORM_MAP["constructor"]\<close> is answered by the member every object inherits,
  the function \<open>Object\<close>, and \<open>resolveTimezone\<close> returns a list that holds it.
\<close>

theorem inherited_member_resolved:
  "\<not> sampleValid (js ''constructor'') \<and> \<not> sampleValid (js ''Constructor'')
   \<and> ianaGuess (js ''constructor'') = js ''Constructor''
   \<and> map_of SHORT_FORM_MAP (js ''constructor'') = None
   \<and> map_of ABBREVIATION_MAP (js ''constructor'') = None
   \<and> map_of CITY_MAP (js ''constructor'') = None
   \<and> resolveTimezone sampleValid (Str (js ''constructor'')) = Inr [Obj (Builtin ''Object'' 1)]
   \<and> resolveTimezone sampleValid (Str (js ''__proto__'')) = Inr [Obj ObjectPrototype]"
  by code_simp

text \<open>
  Claim C7, evaluated at the query \<open>7 constructor\<close>. The zone phrase is resolved to
  the inherited function \<open>Object\<close>: the result has no error, and its source zone is
  not a zone but that function.
\<close>

theorem inherited_member_as_source:
  "parseQuery sampleValid (js ''7 constructor'') =
     Inr \<lparr> timeStr = js ''7'', hours = 7, minutes = 0,
           sourceTimezone = Obj (Builtin ''Object'' 1), sourceLabel = js ''constructor'',
           targetTimezone = None, error = None \<rparr>"
  by code_simp

lemma object_target_raises:
  "targetTimezone parsed = Some (Obj m) \<Longrightarrow>
     getTargetTimezones valid localIana parsed favoriteSetting = Inl TypeError"
  by (simp add: getTargetTimezones_def addTarget_def resolveTimezone_def)

text \<open>
  Claim C8, evaluated at the query \<open>7 CET to constructor\<close>. The query parses without
  error, with the inherited function \<open>Object\<close> stored as its target. On this parsed
  query \<open>getTargetTimezones\<close> resolves the target again, \<open>input.trim\<close> is not a
  function, and the call ends in a \<open>TypeError\<close> instead of a list, for every local
  zone and every favourites string.
\<close>

theorem inherited_member_as_target:
  "parseQuery sampleValid (js ''7 CET to constructor'') =
     Inr \<lparr> timeStr = js ''7'', hours = 7, minutes = 0, sourceTimezone = Str (js ''CET''),
           sourceLabel = js ''CET'', targetTimezone = Some (Obj (Builtin ''Object'' 1)),
           error = None \<rparr>
   \<and> getTargetTimezones sampleValid localIana
       \<lparr> timeStr = js ''7'', hours = 7, minutes = 0, sourceTimezone = Str (js ''CET''),
         sourceLabel = js ''CET'', targetTimezone = Some (Obj (Builtin ''Object'' 1)),
         error = None \<rparr> favoriteSetting
     = Inl TypeError"
proof -
  have "parseQuery sampleValid (js ''7 CET to constructor'') =
     Inr \<lparr> timeStr = js ''7'', hours = 7, minutes = 0, sourceTimezone = Str (js ''CET''),
           sourceLabel = js ''CET'', targetTimezone = Some (Obj (Builtin ''Object'' 1)),
           error = None \<rparr>"
    by code_simp
  then show ?thesis by (simp add: object_target_raises)
qed

section \<open>Time conversion at the end of a month\<close>

text \<open>
  Claim C3, evaluated on 2026-01-31 with Europe/Helsinki two hours ahead of UTC
  throughout. At 23:00 UTC the date in Helsinki is already February 1; weighing the
  month by 43800 minutes, \<open>getUtcOffsetMinutes\<close> gives -720 instead of 120, so 23:00 in
  Helsinki is converted to 11:00 UTC, and converting 11:00 UTC back gives 13:00 in
  Helsinki: the round trip does not reproduce the hour.
\<close>

theorem month_end_round_trip_fails:
  "ConvertedTime.hours (convertTime monthEndHost 23 0 (js ''Europe/Helsinki'') (js ''UTC'') None) = 11
   \<and> ConvertedTime.minutes (convertTime monthEndHost 23 0 (js ''Europe/Helsinki'') (js ''UTC'') None) = 0
   \<and> dayOffset (convertTime monthEndHost 23 0 (js ''Europe/Helsinki'') (js ''UTC'') None) = 0
   \<and> ConvertedTime.hours (convertTime monthEndHost 11 0 (js ''UTC'') (js ''Europe/Helsinki'') None) = 13
   \<and> ConvertedTime.minutes (convertTime monthEndHost 11 0 (js ''UTC'') (js ''Europe/Helsinki'') None) = 0"
  by code_simp

section \<open>Query parsing: every time of day with the zone CET\<close>

lemma is_digit_digit_char: "n < 10 \<Longrightarrow> is_digit (digit_char n)"
  by (simp add: is_digit_def digit_char_def)

lemma digit_val_digit_char: "n < 10 \<Longrightarrow> digit_val (digit_char n) = n"
  by (simp add: digit_val_def digit_char_def)

lemma digit_not_space: "is_digit c \<Longrightarrow> \<not> is_space c"
  by (auto simp: is_digit_def is_space_def)

lemma String_nat_one: "n < 10 \<Longrightarrow> String_nat n = [digit_char n]"
  by (simp add: String_nat.simps)

lemma String_nat_two:
  "10 \<le> n \<Longrightarrow> n < 100 \<Longrightarrow> String_nat n = [digit_char (n div 10), digit_char (n mod 10)]"
  by (subst String_nat.simps) (simp add: String_nat_one)

lemma padStart_two:
  "n < 100 \<Longrightarrow> padStart 2 48 (String_nat n) = [digit_char (n div 10), digit_char (n mod 10)]"
proof (cases "n < 10")
  case True
  have "digit_char 0 = 48" by (simp add: digit_char_def)
  with True show ?thesis by (simp add: padStart_def String_nat_one)
next
  case False
  assume "n < 100"
  with False show ?thesis by (simp add: padStart_def String_nat_two)
qed

lemma trim_keep:
  assumes "s \<noteq> []" and "\<not> is_space (hd s)" and "\<not> is_space (last s)"
  shows "trim s = s"
proof -
  from assms have 1: "dropWhile is_space s = s" by (cases s) auto
  from assms have "rev s \<noteq> []" and "\<not> is_space (hd (rev s))" by (simp_all add: hd_rev)
  then have 2: "dropWhile is_space (rev s) = rev s" by (cases "rev s") auto
  show ?thesis by (simp add: trim_def 1 2)
qed

lemma resolve_CET:
  "resolveTimezone valid (Str (js ''CET'')) =
     Inr [Str (if valid (js ''CET'') then js ''CET''
               else if valid (js ''Cet'') then js ''Cet'' else js ''Europe/Berlin'')]"
proof -
  have "resolveTimezone valid (Str (js ''CET'')) =
     (if valid (js ''CET'') then Inr [Str (js ''CET'')]
      else if js ''Cet'' \<noteq> js ''CET'' \<and> valid (js ''Cet'') then Inr [Str (js ''Cet'')]
      else Inr [Str (js ''Europe/Berlin'')])"
  proof (rule resolveTimezone_phrase)
    show "trim (js ''CET'') = js ''CET''" by code_simp
    show "js ''CET'' \<noteq> []" by code_simp
    show "ianaGuess (js ''CET'') = js ''Cet''" by code_simp
    show "shortFormStage (toLowerCase (js ''CET'')) = Inr [Str (js ''Europe/Berlin'')]"
      by code_simp
  qed
  moreover have "js ''Cet'' \<noteq> js ''CET''" by code_simp
  ultimately show ?thesis by simp
qed

lemma CET_chars:
  "js '' CET'' = 32 # js ''CET''" "js ''CET'' = [67, 69, 84]" "js '':'' = [58]"
  "\<not> is_digit 58" "is_space 32" "\<not> is_space 67" "\<not> is_space 84"
  "match_meridiem (js ''CET'') = None" "TO_RE (js ''CET'') = None"
  by code_simp+

lemma TIME_RE_h_mm:
  assumes "is_digit a" and "is_digit c" and "is_digit d"
  shows "TIME_RE (a # 58 # c # d # js '' CET'') =
     Some \<lparr> whole = [a, 58, c, d, 32], hourGroup = [a],
            minuteGroup = Some [c, d], meridiemGroup = None \<rparr>"
proof -
  have m: "match_meridiem [67, 69, 84] = None" using CET_chars(8) by (simp add: CET_chars(2))
  show ?thesis
    using assms CET_chars(4-7) m
    by (simp add: TIME_RE_def match_hour_def match_minute_def CET_chars(1,2))
qed

lemma TIME_RE_hh_mm:
  assumes "is_digit a" and "is_digit b" and "is_digit c" and "is_digit d"
  shows "TIME_RE (a # b # 58 # c # d # js '' CET'') =
     Some \<lparr> whole = [a, b, 58, c, d, 32], hourGroup = [a, b],
            minuteGroup = Some [c, d], meridiemGroup = None \<rparr>"
proof -
  have m: "match_meridiem [67, 69, 84] = None" using CET_chars(8) by (simp add: CET_chars(2))
  show ?thesis
    using assms CET_chars(4-7) m
    by (simp add: TIME_RE_def match_hour_def match_minute_def CET_chars(1,2))
qed

lemma digit_val_le: "is_digit c \<Longrightarrow> digit_val c \<le> 9"
  by (auto simp: is_digit_def digit_val_def)

lemma parse_h_mm_CET:
  assumes "is_digit a" and "is_digit c" and "is_digit d"
    and "10 * digit_val c + digit_val d \<le> 59"
  shows "parseQuery valid (a # 58 # c # d # js '' CET'') =
     Inr \<lparr> timeStr = [a, 58, c, d], hours = int (digit_val a),
           minutes = int (10 * digit_val c + digit_val d),
           sourceTimezone =
             Str (if valid (js ''CET'') then js ''CET''
                  else if valid (js ''Cet'') then js ''Cet'' else js ''Europe/Berlin''),
           sourceLabel = js ''CET'', targetTimezone = None, error = None \<rparr>"
proof -
  let ?q = "a # 58 # c # d # js '' CET''"
  let ?tm = "\<lparr> whole = [a, 58, c, d, 32], hourGroup = [a],
            minuteGroup = Some [c, d], meridiemGroup = None \<rparr>"
  have "parseQuery valid ?q =
          parseZones valid [a, 58, c, d] (int (digit_val a))
            (int (10 * digit_val c + digit_val d)) (js ''CET'')"
  proof (rule parseQuery_steps [where tm = ?tm and ap = None and hr = "int (digit_val a)"])
    show "trim ?q = ?q"
      by (rule trim_keep) (simp_all add: digit_not_space assms CET_chars)
    show "TIME_RE ?q = Some ?tm" by (rule TIME_RE_h_mm) fact+
    show "parseInt (hourGroup ?tm) = int (digit_val a)" by (simp add: parseInt_def)
    show "(case minuteGroup ?tm of None \<Rightarrow> 0 | Some g \<Rightarrow> parseInt g)
            = int (10 * digit_val c + digit_val d)"
      by (simp add: parseInt_def)
    show "\<not> (None = None \<and> int (digit_val a) > 23)"
      using digit_val_le [OF assms(1)] by simp
    show "\<not> int (10 * digit_val c + digit_val d) > 59" using assms(4) by simp
    show "trim (whole ?tm) = [a, 58, c, d]"
      by (simp add: trim_def digit_not_space assms CET_chars)
    have "trim (js ''CET'') = js ''CET''" by code_simp
    then show "trim (slice_from (length (whole ?tm)) ?q) = js ''CET''"
      by (simp add: slice_from_def CET_chars(1))
  qed simp_all
  moreover have "js ''CET'' \<noteq> []" by (simp add: CET_chars(2))
  ultimately show ?thesis
    by (simp add: parseZones_source_only [where zs = "[]"] CET_chars(9) resolve_CET)
qed

lemma parse_hh_mm_CET:
  assumes "is_digit a" and "is_digit b" and "is_digit c" and "is_digit d"
    and "10 * digit_val a + digit_val b \<le> 23"
    and "10 * digit_val c + digit_val d \<le> 59"
  shows "parseQuery valid (a # b # 58 # c # d # js '' CET'') =
     Inr \<lparr> timeStr = [a, b, 58, c, d], hours = int (10 * digit_val a + digit_val b),
           minutes = int (10 * digit_val c + digit_val d),
           sourceTimezone =
             Str (if valid (js ''CET'') then js ''CET''
                  else if valid (js ''Cet'') then js ''Cet'' else js ''Europe/Berlin''),
           sourceLabel = js ''CET'', targetTimezone = None, error = None \<rparr>"
proof -
  let ?q = "a # b # 58 # c # d # js '' CET''"
  let ?tm = "\<lparr> whole = [a, b, 58, c, d, 32], hourGroup = [a, b],
            minuteGroup = Some [c, d], meridiemGroup = None \<rparr>"
  have "parseQuery valid ?q =
          parseZones valid [a, b, 58, c, d] (int (10 * digit_val a + digit_val b))
            (int (10 * digit_val c + digit_val d)) (js ''CET'')"
  proof (rule parseQuery_steps [where tm = ?tm and ap = None
          and hr = "int (10 * digit_val a + digit_val b)"])
    show "trim ?q = ?q"
      by (rule trim_keep) (simp_all add: digit_not_space assms CET_chars)
    show "TIME_RE ?q = Some ?tm" by (rule TIME_RE_hh_mm) fact+
    show "parseInt (hourGroup ?tm) = int (10 * digit_val a + digit_val b)"
      by (simp add: parseInt_def)
    show "(case minuteGroup ?tm of None \<Rightarrow> 0 | Some g \<Rightarrow> parseInt g)
            = int (10 * digit_val c + digit_val d)"
      by (simp add: parseInt_def)
    show "\<not> (None = None \<and> int (10 * digit_val a + digit_val b) > 23)"
      using assms(5) by simp
    show "\<not> int (10 * digit_val c + digit_val d) > 59" using assms(6) by simp
    show "trim (whole ?tm) = [a, b, 58, c, d]"
      by (simp add: trim_def digit_not_space assms CET_chars)
    have "trim (js ''CET'') = js ''CET''" by code_simp
    then show "trim (slice_from (length (whole ?tm)) ?q) = js ''CET''"
      by (simp add: slice_from_def CET_chars(1))
  qed simp_all
  moreover have "js ''CET'' \<noteq> []" by (simp add: CET_chars(2))
  ultimately show ?thesis
    by (simp add: parseZones_source_only [where zs = "[]"] CET_chars(9) resolve_CET)
qed

text \<open>
  Claim C1, as amended. For every hour H in 0..23 and minute M in 0..59, the query made
  of \<open>formatTime H M\<close> (the hour in decimal, a colon, the minute in two digits), a space
  and \<open>CET\<close> parses without error, with the hour H, the minute M and the source label
  \<open>CET\<close>. The source zone is Europe/Berlin when the host accepts neither \<open>CET\<close> nor
  \<open>Cet\<close> as a zone identifier of its own; a host that accepts \<open>CET\<close> gets \<open>CET\<close>
  itself, since \<open>resolveTimezone\<close> asks the host about the phrase before it looks at
  the abbreviation table.
\<close>

theorem parse_H_MM_CET:
  assumes "0 \<le> H" and "H \<le> 23" and "0 \<le> M" and "M \<le> 59"
  shows "parseQuery valid (formatTime H M @ js '' CET'') =
     Inr \<lparr> timeStr = formatTime H M, hours = H, minutes = M,
           sourceTimezone =
             Str (if valid (js ''CET'') then js ''CET''
                  else if valid (js ''Cet'') then js ''Cet'' else js ''Europe/Berlin''),
           sourceLabel = js ''CET'', targetTimezone = None, error = None \<rparr>"
proof -
  define h where "h = nat H"
  define m where "m = nat M"
  have H: "H = int h" and M: "M = int m" using assms by (simp_all add: h_def m_def)
  have hb: "h \<le> 23" and mb: "m \<le> 59" using assms by (simp_all add: h_def m_def)
  let ?c = "digit_char (m div 10)" and ?d = "digit_char (m mod 10)"
  have c: "is_digit ?c" and d: "is_digit ?d" using mb by (simp_all add: is_digit_digit_char)
  have cv: "digit_val ?c = m div 10" and dv: "digit_val ?d = m mod 10"
    using mb by (simp_all add: digit_val_digit_char)
  have mm: "10 * digit_val ?c + digit_val ?d = m" by (simp add: cv dv)
  have ft: "formatTime (int h) (int m) = String_nat h @ 58 # [?c, ?d]"
    using mb by (simp add: formatTime_def String_def padStart_two CET_chars(3))
  show ?thesis
  proof (cases "h < 10")
    case True
    let ?a = "digit_char h"
    have a: "is_digit ?a" using True by (simp add: is_digit_digit_char)
    have av: "digit_val ?a = h" using True by (simp add: digit_val_digit_char)
    have f: "formatTime (int h) (int m) = [?a, 58, ?c, ?d]"
      using True by (simp add: ft String_nat_one)
    from parse_h_mm_CET [OF a c d, of valid] mm mb
    show ?thesis unfolding H M by (simp add: f av)
  next
    case False
    let ?a = "digit_char (h div 10)" and ?b = "digit_char (h mod 10)"
    have a: "is_digit ?a" and b: "is_digit ?b" using hb by (simp_all add: is_digit_digit_char)
    have av: "digit_val ?a = h div 10" and bv: "digit_val ?b = h mod 10"
      using hb by (simp_all add: digit_val_digit_char)
    have hh: "10 * digit_val ?a + digit_val ?b = h" by (simp add: av bv)
    have f: "formatTime (int h) (int m) = [?a, ?b, 58, ?c, ?d]"
      using False hb by (simp add: ft String_nat_two)
    from parse_hh_mm_CET [OF a b c d, of valid] hh mm hb mb
    show ?thesis unfolding H M by (simp add: f)
  qed
qed

theorem parse_H_MM_CET_witness:
  "formatTime 7 5 @ js '' CET'' = js ''7:05 CET''
   \<and> parseQuery sampleValid (js ''7:05 CET'') =
     Inr \<lparr> timeStr = js ''7:05'', hours = 7, minutes = 5, sourceTimezone = Str (js ''CET''),
           sourceLabel = js ''CET'', targetTimezone = None, error = None \<rparr>
   \<and> parseQuery (\<lambda>tz. False) (js ''7:05 CET'') =
     Inr \<lparr> timeStr = js ''7:05'', hours = 7, minutes = 5,
           sourceTimezone = Str (js ''Europe/Berlin''),
           sourceLabel = js ''CET'', targetTimezone = None, error = None \<rparr>"
proof -
  have f: "formatTime 7 5 = js ''7:05''" by code_simp
  have g: "js ''7:05'' @ js '' CET'' = js ''7:05 CET''" by code_simp
  have v: "sampleValid (js ''CET'')" by code_simp
  from parse_H_MM_CET [of 7 5 sampleValid] parse_H_MM_CET [of 7 5 "\<lambda>tz. False"] f g v
  show ?thesis by simp
qed

text \<open>
  Claim C1 as stated gives Europe/Berlin on every host. The tz database has an identifier
  \<open>CET\<close> of its own; on a host that accepts it the source zone is \<open>CET\<close>.
\<close>

theorem host_accepting_CET_counterexample:
  "sampleValid (js ''CET'')
   \<and> parseQuery sampleValid (js ''7:05 CET'') =
     Inr \<lparr> timeStr = js ''7:05'', hours = 7, minutes = 5, sourceTimezone = Str (js ''CET''),
           sourceLabel = js ''CET'', targetTimezone = None, error = None \<rparr>
   \<and> Str (js ''CET'') \<noteq> Str (js ''Europe/Berlin'')"
  by code_simp

end
